theory Spec2Isabelle
  imports Complex_Main
begin

section \<open>Errors and the runtime's floating-point arithmetic\<close>

text \<open>
  The exceptions of \<^verbatim>\<open>main.py\<close>, each with its message. The source raises
  \<^verbatim>\<open>ValueError\<close> for every syntax problem and \<^verbatim>\<open>ZeroDivisionError\<close> for a zero
  divisor; \<^verbatim>\<open>OverflowError\<close> can only come out of \<^verbatim>\<open>math.pow\<close>.
\<close>

datatype error = ValueError string | ZeroDivisionError string | OverflowError string

text \<open>
  \<^verbatim>\<open>float(tok)\<close>, the operators on floats and \<^verbatim>\<open>math.pow\<close> belong to the Python
  runtime, not to the repository. The functions below take them as a record, so that
  what is proved for every such record holds for the doubles of the runtime as well:
  \<^item> \<open>fl_parse\<close> is \<^verbatim>\<open>float(tok)\<close>, \<open>None\<close> where it raises;
  \<^item> \<open>fl_add\<close>, \<open>fl_sub\<close>, \<open>fl_mul\<close>, \<open>fl_neg\<close> are \<^verbatim>\<open>a + b\<close>, \<^verbatim>\<open>a - b\<close>,
    \<^verbatim>\<open>a * b\<close>, \<^verbatim>\<open>-a\<close>;
  \<^item> \<open>fl_div\<close> is \<^verbatim>\<open>a / b\<close> for a divisor that is not zero;
  \<^item> \<open>fl_is_zero\<close> is the test \<^verbatim>\<open>b == 0\<close>;
  \<^item> \<open>fl_pow\<close> is \<^verbatim>\<open>math.pow(a, b)\<close>, which may raise.
\<close>

record 'v arith =
  fl_parse :: "string \<Rightarrow> 'v option"
  fl_add :: "'v \<Rightarrow> 'v \<Rightarrow> 'v"
  fl_sub :: "'v \<Rightarrow> 'v \<Rightarrow> 'v"
  fl_mul :: "'v \<Rightarrow> 'v \<Rightarrow> 'v"
  fl_div :: "'v \<Rightarrow> 'v \<Rightarrow> 'v"
  fl_neg :: "'v \<Rightarrow> 'v"
  fl_is_zero :: "'v \<Rightarrow> bool"
  fl_pow :: "'v \<Rightarrow> 'v \<Rightarrow> error + 'v"

section \<open>Tokenizer\<close>

text \<open>
  A \<open>char\<close> stands for the code point of the same number, so an expression is a Python
  string over the code points 0 to 255. On these, \<^verbatim>\<open>str.isspace\<close> and \<^verbatim>\<open>str.isdigit\<close>
  hold exactly for the characters listed: the digits include the superscripts
  \<open>0xB2\<close>, \<open>0xB3\<close> and \<open>0xB9\<close>.
\<close>

definition isspace :: "char \<Rightarrow> bool" where
  "isspace ch \<longleftrightarrow> of_char ch \<in> set [0x09, 0x0A, 0x0B, 0x0C, 0x0D, 0x1C, 0x1D, 0x1E, 0x1F, 0x20, 0x85, 0xA0 :: nat]"

definition isdigit :: "char \<Rightarrow> bool" where
  "isdigit ch \<longleftrightarrow> (0x30 \<le> (of_char ch :: nat) \<and> (of_char ch :: nat) \<le> 0x39)
     \<or> of_char ch \<in> set [0xB2, 0xB3, 0xB9 :: nat]"

text \<open>The test of the inner scanning loop: \<^verbatim>\<open>expr[i].isdigit() or expr[i] == '.'\<close>.\<close>

definition num_char :: "char \<Rightarrow> bool" where
  "num_char ch \<longleftrightarrow> isdigit ch \<or> ch = CHR ''.''"

text \<open>
  The previous-token test of the unary-minus detection:
  \<^verbatim>\<open>prev is None or prev in ('+', '-', '*', '/', '^', '(', 'u-')\<close>, where \<^verbatim>\<open>prev\<close> is
  \<^verbatim>\<open>tokens[-1]\<close>, or \<^verbatim>\<open>None\<close> for no token yet.
\<close>

definition unary_context :: "string list \<Rightarrow> bool" where
  "unary_context tokens \<longleftrightarrow>
     tokens = [] \<or> last tokens \<in> set [''+'', ''-'', ''*'', ''/'', ''^'', ''('', ''u-'']"

text \<open>
  The \<^verbatim>\<open>while i < n\<close> loop of \<^verbatim>\<open>tokenize\<close>: the first argument is \<^verbatim>\<open>expr[i:]\<close>, the
  second the list \<^verbatim>\<open>tokens\<close> so far.
\<close>

function tokenize_loop :: "string \<Rightarrow> string list \<Rightarrow> error + string list" where
  "tokenize_loop [] tokens = Inr tokens"
| "tokenize_loop (ch # rest) tokens =
     (if isspace ch then tokenize_loop rest tokens
      else if isdigit ch \<or> ch = CHR ''.'' then
        (let num_str = ch # takeWhile num_char rest in
         if count_list num_str (CHR ''.'') > 1
         then Inl (ValueError (''Invalid numeric literal: '' @ num_str))
         else tokenize_loop (dropWhile num_char rest) (tokens @ [num_str]))
      else if ch \<in> set ''+-*/^()'' then
        (if ch = CHR ''-'' \<and> unary_context tokens
         then tokenize_loop rest (tokens @ [''u-''])
         else tokenize_loop rest (tokens @ [[ch]]))
      else Inl (ValueError (''Unsupported character: '' @ [CHR 0x27, ch, CHR 0x27])))"
  by pat_completeness auto
termination
  by (relation "measure (\<lambda>(expr, tokens). length expr)")
     (auto simp: less_Suc_eq_le length_dropWhile_le)

definition tokenize :: "string \<Rightarrow> error + string list" where
  "tokenize expr = tokenize_loop expr []"

section \<open>Infix to postfix\<close>

record opinfo =
  prec :: nat
  assoc :: string

definition OPERATORS :: "string \<rightharpoonup> opinfo" where
  "OPERATORS = map_of
     [(''+'', \<lparr>prec = 2, assoc = ''L''\<rparr>),
      (''-'', \<lparr>prec = 2, assoc = ''L''\<rparr>),
      (''*'', \<lparr>prec = 3, assoc = ''L''\<rparr>),
      (''/'', \<lparr>prec = 3, assoc = ''L''\<rparr>),
      (''^'', \<lparr>prec = 4, assoc = ''R''\<rparr>),
      (''u-'', \<lparr>prec = 5, assoc = ''R''\<rparr>)]"

text \<open>\<^verbatim>\<open>is_number\<close>: whether \<^verbatim>\<open>float(token)\<close> returns.\<close>

definition is_number :: "('v, 'x) arith_scheme \<Rightarrow> string \<Rightarrow> bool" where
  "is_number A token \<longleftrightarrow> fl_parse A token \<noteq> None"

text \<open>
  The stacks are lists with the top at the head: \<^verbatim>\<open>stack[-1]\<close> is the head,
  \<^verbatim>\<open>stack.pop()\<close> takes it off, \<^verbatim>\<open>stack.append(x)\<close> conses. The output and the trace
  grow at the end, as in the source.

  \<open>pop_operators\<close> is the inner \<^verbatim>\<open>while\<close> of the operator branch, where \<open>i1\<close> is
  \<^verbatim>\<open>OPERATORS[o1]\<close>; it returns the stack and the output.
\<close>

fun pop_operators :: "opinfo \<Rightarrow> string list \<Rightarrow> string list \<Rightarrow> string list \<times> string list" where
  "pop_operators i1 [] output = ([], output)"
| "pop_operators i1 (o2 # stack) output =
     (case OPERATORS o2 of
        None \<Rightarrow> (o2 # stack, output)
      | Some i2 \<Rightarrow>
          if (assoc i1 = ''L'' \<and> prec i1 \<le> prec i2) \<or> (assoc i1 = ''R'' \<and> prec i1 < prec i2)
          then pop_operators i1 stack (output @ [o2])
          else (o2 # stack, output))"

text \<open>The \<^verbatim>\<open>while stack and stack[-1] != '('\<close> loop of the \<^verbatim>\<open>')'\<close> branch.\<close>

fun pop_to_paren :: "string list \<Rightarrow> string list \<Rightarrow> string list \<times> string list" where
  "pop_to_paren [] output = ([], output)"
| "pop_to_paren (tp # stack) output =
     (if tp \<noteq> ''('' then pop_to_paren stack (output @ [tp]) else (tp # stack, output))"

text \<open>One iteration of \<^verbatim>\<open>for tok in tokens\<close>, on the pair of output and stack.\<close>

definition convert_token ::
  "('v, 'x) arith_scheme \<Rightarrow> string \<Rightarrow> string list \<times> string list \<Rightarrow> error + string list \<times> string list" where
  "convert_token A tok os =
     (case os of (output, stack) \<Rightarrow>
      if is_number A tok then Inr (output @ [tok], stack)
      else
        (case OPERATORS tok of
           Some i1 \<Rightarrow>
             (case pop_operators i1 stack output of
                (stack', output') \<Rightarrow> Inr (output', tok # stack'))
         | None \<Rightarrow>
             (if tok = ''('' then Inr (output, tok # stack)
              else if tok = '')'' then
                (case pop_to_paren stack output of
                   ([], output') \<Rightarrow> Inl (ValueError ''Mismatched parentheses'')
                 | (tp # stack', output') \<Rightarrow> Inr (output', stack'))
              else Inl (ValueError (''Unknown token in infix_to_postfix: '' @ tok)))))"

fun convert_loop ::
  "('v, 'x) arith_scheme \<Rightarrow> string list \<Rightarrow> string list \<times> string list \<Rightarrow> error + string list \<times> string list" where
  "convert_loop A [] os = Inr os"
| "convert_loop A (tok # tokens) os =
     (case convert_token A tok os of Inl e \<Rightarrow> Inl e | Inr os' \<Rightarrow> convert_loop A tokens os')"

text \<open>The final \<^verbatim>\<open>while stack\<close> loop.\<close>

fun drain :: "string list \<Rightarrow> string list \<Rightarrow> error + string list" where
  "drain [] output = Inr output"
| "drain (tp # stack) output =
     (if tp \<in> set [''('', '')''] then Inl (ValueError ''Mismatched parentheses'')
      else drain stack (output @ [tp]))"

definition infix_to_postfix :: "('v, 'x) arith_scheme \<Rightarrow> string list \<Rightarrow> error + string list" where
  "infix_to_postfix A tokens =
     (case convert_loop A tokens ([], []) of
        Inl e \<Rightarrow> Inl e
      | Inr (output, stack) \<Rightarrow> drain stack output)"

section \<open>Postfix evaluation\<close>

definition apply_op :: "('v, 'x) arith_scheme \<Rightarrow> 'v \<Rightarrow> 'v \<Rightarrow> string \<Rightarrow> error + 'v" where
  "apply_op A a b op =
     (if op = ''+'' then Inr (fl_add A a b)
      else if op = ''-'' then Inr (fl_sub A a b)
      else if op = ''*'' then Inr (fl_mul A a b)
      else if op = ''/'' then
        (if fl_is_zero A b then Inl (ZeroDivisionError ''Division by zero'')
         else Inr (fl_div A a b))
      else if op = ''^'' then fl_pow A a b
      else Inl (ValueError (''Unsupported operator: '' @ op)))"

text \<open>
  A trace entry holds the values that the source interpolates into the entry's text:
  \<^verbatim>\<open>PUSH {val}\<close>, \<^verbatim>\<open>UNARY_MINUS {a} -> {res}\<close> and \<^verbatim>\<open>{a} {tok} {b} -> {res}\<close>.
\<close>

datatype 'v trace_entry = PUSH 'v | UNARY_MINUS 'v 'v | BINARY 'v string 'v 'v

text \<open>The \<^verbatim>\<open>for tok in postfix_tokens\<close> loop, on the stack and the trace.\<close>

fun eval_loop ::
  "('v, 'x) arith_scheme \<Rightarrow> string list \<Rightarrow> 'v list \<Rightarrow> 'v trace_entry list
     \<Rightarrow> error + 'v list \<times> 'v trace_entry list" where
  "eval_loop A [] stack trace = Inr (stack, trace)"
| "eval_loop A (tok # toks) stack trace =
     (case fl_parse A tok of
        Some val \<Rightarrow> eval_loop A toks (val # stack) (trace @ [PUSH val])
      | None \<Rightarrow>
          if tok \<in> dom OPERATORS then
            (if tok = ''u-'' then
               (case stack of
                  [] \<Rightarrow> Inl (ValueError ''Insufficient operands for unary minus'')
                | a # stack' \<Rightarrow>
                    eval_loop A toks (fl_neg A a # stack') (trace @ [UNARY_MINUS a (fl_neg A a)]))
             else
               (case stack of
                  b # a # stack' \<Rightarrow>
                    (case apply_op A a b tok of
                       Inl e \<Rightarrow> Inl e
                     | Inr res \<Rightarrow> eval_loop A toks (res # stack') (trace @ [BINARY a tok b res]))
                | _ \<Rightarrow> Inl (ValueError (''Insufficient operands for '' @ [CHR 0x27] @ tok @ [CHR 0x27]))))
          else Inl (ValueError (''Unknown token in evaluate_postfix: '' @ tok)))"

definition single_value_error :: error where
  "single_value_error =
     ValueError ''The expression could not be evaluated to a single value (syntax error).''"

definition evaluate_postfix ::
  "('v, 'x) arith_scheme \<Rightarrow> string list \<Rightarrow> error + 'v \<times> 'v trace_entry list" where
  "evaluate_postfix A postfix_tokens =
     (case eval_loop A postfix_tokens [] [] of
        Inl e \<Rightarrow> Inl e
      | Inr (stack, trace) \<Rightarrow>
          (case stack of [v] \<Rightarrow> Inr (v, trace) | _ \<Rightarrow> Inl single_value_error))"

section \<open>The pipeline\<close>

definition evaluate_expression ::
  "('v, 'x) arith_scheme \<Rightarrow> string
     \<Rightarrow> error + 'v \<times> string list \<times> string list \<times> 'v trace_entry list" where
  "evaluate_expression A expr =
     (case tokenize expr of
        Inl e \<Rightarrow> Inl e
      | Inr tokens \<Rightarrow>
          (case infix_to_postfix A tokens of
             Inl e \<Rightarrow> Inl e
           | Inr postfix \<Rightarrow>
               (case evaluate_postfix A postfix of
                  Inl e \<Rightarrow> Inl e
                | Inr (v, trace) \<Rightarrow> Inr (v, tokens, postfix, trace))))"

section \<open>The pipeline over the module's state\<close>

text \<open>
  What outlives a call of \<^verbatim>\<open>evaluate_expression\<close> is the module's state, and the only
  mutable object in it is the dictionary bound to \<^verbatim>\<open>OPERATORS\<close>: the lists \<^verbatim>\<open>tokens\<close>,
  \<^verbatim>\<open>output\<close>, \<^verbatim>\<open>stack\<close> and \<^verbatim>\<open>trace\<close> are created by the call that uses them. To say
  what a later call finds, the functions that look \<^verbatim>\<open>OPERATORS\<close> up are written once
  more as state transformers: each takes the module's state, reads the table from it
  where the source names \<^verbatim>\<open>OPERATORS\<close>, and returns the state it leaves, which the next
  statement and the next call receive. \<^verbatim>\<open>tokenize\<close>, \<^verbatim>\<open>is_number\<close>, \<^verbatim>\<open>apply_op\<close> and the
  two loops on parentheses name no global of the module, so they are used as they are.
  \<open>initial_globals\<close> is the state after the module is loaded.
\<close>

record globals =
  gOPERATORS :: "string \<rightharpoonup> opinfo"

definition initial_globals :: globals where
  "initial_globals = \<lparr>gOPERATORS = OPERATORS\<rparr>"

fun pop_operators_st ::
  "opinfo \<Rightarrow> string list \<Rightarrow> string list \<Rightarrow> globals \<Rightarrow> (string list \<times> string list) \<times> globals" where
  "pop_operators_st i1 [] output g = (([], output), g)"
| "pop_operators_st i1 (o2 # stack) output g =
     (case gOPERATORS g o2 of
        None \<Rightarrow> ((o2 # stack, output), g)
      | Some i2 \<Rightarrow>
          if (assoc i1 = ''L'' \<and> prec i1 \<le> prec i2) \<or> (assoc i1 = ''R'' \<and> prec i1 < prec i2)
          then pop_operators_st i1 stack (output @ [o2]) g
          else ((o2 # stack, output), g))"

definition convert_token_st ::
  "('v, 'x) arith_scheme \<Rightarrow> string \<Rightarrow> string list \<times> string list \<Rightarrow> globals
     \<Rightarrow> (error + string list \<times> string list) \<times> globals" where
  "convert_token_st A tok os g =
     (case os of (output, stack) \<Rightarrow>
      if is_number A tok then (Inr (output @ [tok], stack), g)
      else
        (case gOPERATORS g tok of
           Some i1 \<Rightarrow>
             (case pop_operators_st i1 stack output g of
                ((stack', output'), g') \<Rightarrow> (Inr (output', tok # stack'), g'))
         | None \<Rightarrow>
             (if tok = ''('' then (Inr (output, tok # stack), g)
              else if tok = '')'' then
                (case pop_to_paren stack output of
                   ([], output') \<Rightarrow> (Inl (ValueError ''Mismatched parentheses''), g)
                 | (tp # stack', output') \<Rightarrow> (Inr (output', stack'), g))
              else (Inl (ValueError (''Unknown token in infix_to_postfix: '' @ tok)), g))))"

fun convert_loop_st ::
  "('v, 'x) arith_scheme \<Rightarrow> string list \<Rightarrow> string list \<times> string list \<Rightarrow> globals
     \<Rightarrow> (error + string list \<times> string list) \<times> globals" where
  "convert_loop_st A [] os g = (Inr os, g)"
| "convert_loop_st A (tok # tokens) os g =
     (case convert_token_st A tok os g of
        (Inl e, g') \<Rightarrow> (Inl e, g')
      | (Inr os', g') \<Rightarrow> convert_loop_st A tokens os' g')"

definition infix_to_postfix_st ::
  "('v, 'x) arith_scheme \<Rightarrow> string list \<Rightarrow> globals \<Rightarrow> (error + string list) \<times> globals" where
  "infix_to_postfix_st A tokens g =
     (case convert_loop_st A tokens ([], []) g of
        (Inl e, g') \<Rightarrow> (Inl e, g')
      | (Inr (output, stack), g') \<Rightarrow> (drain stack output, g'))"

fun eval_loop_st ::
  "('v, 'x) arith_scheme \<Rightarrow> string list \<Rightarrow> 'v list \<Rightarrow> 'v trace_entry list \<Rightarrow> globals
     \<Rightarrow> (error + 'v list \<times> 'v trace_entry list) \<times> globals" where
  "eval_loop_st A [] stack trace g = (Inr (stack, trace), g)"
| "eval_loop_st A (tok # toks) stack trace g =
     (case fl_parse A tok of
        Some val \<Rightarrow> eval_loop_st A toks (val # stack) (trace @ [PUSH val]) g
      | None \<Rightarrow>
          if tok \<in> dom (gOPERATORS g) then
            (if tok = ''u-'' then
               (case stack of
                  [] \<Rightarrow> (Inl (ValueError ''Insufficient operands for unary minus''), g)
                | a # stack' \<Rightarrow>
                    eval_loop_st A toks (fl_neg A a # stack')
                      (trace @ [UNARY_MINUS a (fl_neg A a)]) g)
             else
               (case stack of
                  b # a # stack' \<Rightarrow>
                    (case apply_op A a b tok of
                       Inl e \<Rightarrow> (Inl e, g)
                     | Inr res \<Rightarrow>
                         eval_loop_st A toks (res # stack') (trace @ [BINARY a tok b res]) g)
                | _ \<Rightarrow>
                    (Inl (ValueError (''Insufficient operands for '' @ [CHR 0x27] @ tok @ [CHR 0x27])), g)))
          else (Inl (ValueError (''Unknown token in evaluate_postfix: '' @ tok)), g))"

definition evaluate_postfix_st ::
  "('v, 'x) arith_scheme \<Rightarrow> string list \<Rightarrow> globals
     \<Rightarrow> (error + 'v \<times> 'v trace_entry list) \<times> globals" where
  "evaluate_postfix_st A postfix_tokens g =
     (case eval_loop_st A postfix_tokens [] [] g of
        (Inl e, g') \<Rightarrow> (Inl e, g')
      | (Inr (stack, trace), g') \<Rightarrow>
          (case stack of [v] \<Rightarrow> (Inr (v, trace), g') | _ \<Rightarrow> (Inl single_value_error, g')))"

definition evaluate_expression_st ::
  "('v, 'x) arith_scheme \<Rightarrow> string \<Rightarrow> globals
     \<Rightarrow> (error + 'v \<times> string list \<times> string list \<times> 'v trace_entry list) \<times> globals" where
  "evaluate_expression_st A expr g =
     (case tokenize expr of
        Inl e \<Rightarrow> (Inl e, g)
      | Inr tokens \<Rightarrow>
          (case infix_to_postfix_st A tokens g of
             (Inl e, g1) \<Rightarrow> (Inl e, g1)
           | (Inr postfix, g1) \<Rightarrow>
               (case evaluate_postfix_st A postfix g1 of
                  (Inl e, g2) \<Rightarrow> (Inl e, g2)
                | (Inr (v, trace), g2) \<Rightarrow> (Inr (v, tokens, postfix, trace), g2))))"

section \<open>An exact arithmetic\<close>

text \<open>
  One arithmetic to run the pipeline on: the values are real numbers and every operation
  is exact, so the rounding of the runtime's doubles (a relative error of at most
  \<open>2\<^sup>-\<^sup>5\<^sup>3\<close> for each operation) is left out. \<open>decimal_literal\<close> reads an unsigned
  decimal literal: ASCII digits around at most one point, with one digit at least. These
  are the tokens of the tokenizer that \<^verbatim>\<open>float\<close> accepts.
\<close>

definition ascii_digit :: "char \<Rightarrow> bool" where
  "ascii_digit c \<longleftrightarrow> 0x30 \<le> (of_char c :: nat) \<and> (of_char c :: nat) \<le> 0x39"

fun digits_value :: "nat \<Rightarrow> string \<Rightarrow> nat" where
  "digits_value acc [] = acc"
| "digits_value acc (c # cs) = digits_value (10 * acc + (of_char c - 0x30)) cs"

definition decimal_literal :: "string \<Rightarrow> real option" where
  "decimal_literal s =
     (let ip = takeWhile (\<lambda>c. c \<noteq> CHR ''.'') s;
          fp = drop 1 (dropWhile (\<lambda>c. c \<noteq> CHR ''.'') s)
      in if ip @ fp = [] \<or> \<not> list_all ascii_digit (ip @ fp) then None
         else Some (real (digits_value 0 ip) + real (digits_value 0 fp) / 10 ^ length fp))"

text \<open>
  \<^verbatim>\<open>math.pow\<close> on exact values: a zero base with a negative exponent and a negative base
  with an exponent that is not an integer raise \<^verbatim>\<open>ValueError\<close>.
\<close>

definition exact_pow :: "real \<Rightarrow> real \<Rightarrow> error + real" where
  "exact_pow a b =
     (if (a = 0 \<and> b < 0) \<or> (a < 0 \<and> b \<noteq> of_int \<lfloor>b\<rfloor>) then Inl (ValueError ''math domain error'')
      else if b = of_int \<lfloor>b\<rfloor> then Inr (a powi \<lfloor>b\<rfloor>)
      else Inr (a powr b))"

definition exact :: "real arith" where
  "exact = \<lparr>fl_parse = decimal_literal,
            fl_add = (\<lambda>a b. a + b),
            fl_sub = (\<lambda>a b. a - b),
            fl_mul = (\<lambda>a b. a * b),
            fl_div = (\<lambda>a b. a / b),
            fl_neg = (\<lambda>a. - a),
            fl_is_zero = (\<lambda>b. b = 0),
            fl_pow = exact_pow\<rparr>"

section \<open>Notions of the statements\<close>

text \<open>
  A result that is a value within the tolerance \<open>10\<^sup>-\<^sup>9\<close> of \<open>x\<close>; an error is never
  such a result.
\<close>

definition returns_about :: "error + real \<times> 'a \<Rightarrow> real \<Rightarrow> bool" where
  "returns_about r x = (case r of Inl e \<Rightarrow> False | Inr res \<Rightarrow> \<bar>fst res - x\<bar> \<le> 1 / 10 ^ 9)"

text \<open>The entries that a push of a literal appends.\<close>

fun is_push :: "'v trace_entry \<Rightarrow> bool" where
  "is_push (PUSH v) = True"
| "is_push (UNARY_MINUS a res) = False"
| "is_push (BINARY a tok b res) = False"

text \<open>
  A token that the loops treat as an operator: \<^verbatim>\<open>is_number(tok)\<close> fails and
  \<^verbatim>\<open>tok in OPERATORS\<close> holds.
\<close>

definition operator_token :: "('v, 'x) arith_scheme \<Rightarrow> string \<Rightarrow> bool" where
  "operator_token A tok \<longleftrightarrow> (if is_number A tok then False else tok \<in> dom OPERATORS)"

text \<open>
  The operator metadata in the words of the specification: the operator kinds, their
  precedence (additive 2, multiplicative 3, power 4, unary minus 5) and their
  associativity (left for the four binary arithmetic operators, right for power and unary
  minus); and its rule for popping \<open>o2\<close> off the stack when \<open>o1\<close> is read.
\<close>

definition spec_operator :: "string \<Rightarrow> bool" where
  "spec_operator k \<longleftrightarrow> k \<in> set [''+'', ''-'', ''*'', ''/'', ''^'', ''u-'']"

definition spec_precedence :: "string \<Rightarrow> nat" where
  "spec_precedence k =
     (if k \<in> set [''+'', ''-''] then 2
      else if k \<in> set [''*'', ''/''] then 3
      else if k = ''^'' then 4
      else 5)"

definition spec_left_assoc :: "string \<Rightarrow> bool" where
  "spec_left_assoc k \<longleftrightarrow> k \<in> set [''+'', ''-'', ''*'', ''/'']"

definition spec_right_assoc :: "string \<Rightarrow> bool" where
  "spec_right_assoc k \<longleftrightarrow> k \<in> set [''^'', ''u-'']"

definition spec_pops :: "string \<Rightarrow> string \<Rightarrow> bool" where
  "spec_pops o1 o2 \<longleftrightarrow>
     spec_operator o2 \<and>
     ((spec_left_assoc o1 \<and> spec_precedence o1 \<le> spec_precedence o2)
      \<or> (spec_right_assoc o1 \<and> spec_precedence o1 < spec_precedence o2))"

text \<open>
  The unary-minus rule in the words of the specification. \<open>unary_after prev\<close>: there is no
  previous token, or the previous token is an operator (a unary minus included) or a left
  parenthesis. \<open>minus_placed\<close> reads a token sequence from the left and holds when every
  unary-minus token stands in such a place and every binary \<open>-\<close> token does not.
\<close>

definition unary_after :: "string option \<Rightarrow> bool" where
  "unary_after prev =
     (case prev of
        None \<Rightarrow> True
      | Some p \<Rightarrow> p \<in> set [''+'', ''-'', ''*'', ''/'', ''^'', ''u-'', ''(''])"

fun minus_placed :: "string option \<Rightarrow> string list \<Rightarrow> bool" where
  "minus_placed prev [] = True"
| "minus_placed prev (t # ts) =
     ((if t = ''u-'' then unary_after prev
       else if t = ''-'' then \<not> unary_after prev
       else True)
      \<and> minus_placed (Some t) ts)"

text \<open>\<^verbatim>\<open>tokens[-1] if tokens else None\<close>.\<close>

definition last_token :: "string list \<Rightarrow> string option" where
  "last_token tokens = (if tokens = [] then None else Some (last tokens))"

text \<open>
  The maximal runs of digits and dots of a text, from left to right: \<open>runs_from run cs\<close>
  reads \<open>cs\<close> with the run \<open>run\<close> open. A Number-candidate token is a token made of
  digits and dots only.
\<close>

fun runs_from :: "string \<Rightarrow> string \<Rightarrow> string list" where
  "runs_from run [] = (if run = [] then [] else [run])"
| "runs_from run (c # cs) =
     (if num_char c then runs_from (run @ [c]) cs
      else (if run = [] then [] else [run]) @ runs_from [] cs)"

definition maximal_runs :: "string \<Rightarrow> string list" where
  "maximal_runs expr = runs_from [] expr"

definition number_candidate :: "string \<Rightarrow> bool" where
  "number_candidate tok \<longleftrightarrow> tok \<noteq> [] \<and> list_all num_char tok"

section \<open>Evaluating the model\<close>

lemmas tokenize_defs = tokenize_def isspace_def isdigit_def num_char_def unary_context_def

lemmas pipeline_defs = infix_to_postfix_def convert_token_def is_number_def OPERATORS_def
  evaluate_postfix_def evaluate_expression_def apply_op_def single_value_error_def

lemmas exact_defs = exact_def decimal_literal_def ascii_digit_def exact_pow_def

section \<open>The sample expression with two minus signs\<close>

lemma sample_tokens:
  "tokenize ''(3.5+2.1)*4--2'' =
     Inr [''('', ''3.5'', ''+'', ''2.1'', '')'', ''*'', ''4'', ''-'', ''u-'', ''2'']"
  by (simp add: tokenize_defs)

text \<open>
  Whatever the arithmetic, as long as it reads the four literals and none of the
  structural tokens as a number, the pipeline computes \<open>(a + b) * c - (- d)\<close> in it.
\<close>

lemma sample_any_arithmetic:
  assumes "fl_parse A ''3.5'' = Some a" "fl_parse A ''2.1'' = Some b"
    "fl_parse A ''4'' = Some c" "fl_parse A ''2'' = Some d"
    "fl_parse A ''('' = None" "fl_parse A '')'' = None" "fl_parse A ''+'' = None"
    "fl_parse A ''*'' = None" "fl_parse A ''-'' = None" "fl_parse A ''u-'' = None"
  shows "evaluate_expression A ''(3.5+2.1)*4--2'' =
    Inr (fl_sub A (fl_mul A (fl_add A a b) c) (fl_neg A d),
         [''('', ''3.5'', ''+'', ''2.1'', '')'', ''*'', ''4'', ''-'', ''u-'', ''2''],
         [''3.5'', ''2.1'', ''+'', ''4'', ''*'', ''2'', ''u-'', ''-''],
         [PUSH a, PUSH b, BINARY a ''+'' b (fl_add A a b), PUSH c,
          BINARY (fl_add A a b) ''*'' c (fl_mul A (fl_add A a b) c), PUSH d,
          UNARY_MINUS d (fl_neg A d),
          BINARY (fl_mul A (fl_add A a b) c) ''-'' (fl_neg A d)
            (fl_sub A (fl_mul A (fl_add A a b) c) (fl_neg A d))])"
  using assms
  by (simp add: evaluate_expression_def sample_tokens infix_to_postfix_def convert_token_def
      is_number_def OPERATORS_def evaluate_postfix_def apply_op_def)

lemma sample_exact_value:
  "map_sum id fst (evaluate_expression exact ''(3.5+2.1)*4--2'') = Inr (122 / 5)"
  using sample_any_arithmetic [of exact "7 / 2" "21 / 10" 4 2]
  by (simp add: exact_defs)

text \<open>
  C1, as the code has it: \<^verbatim>\<open>evaluate_expression("(3.5+2.1)*4--2")\<close> succeeds and returns
  the value 24.4 to within the tolerance \<open>10\<^sup>-\<^sup>9\<close>. The sum is 5.6, its product with 4
  is 22.4, and subtracting the negated 2 gives 24.4.
\<close>

theorem C1_sample_value_is_24_4:
  "returns_about (evaluate_expression exact ''(3.5+2.1)*4--2'') (244 / 10)"
proof -
  have "evaluate_expression exact ''(3.5+2.1)*4--2'' \<noteq> Inl e" for e
    using sample_exact_value by auto
  then show ?thesis
    using sample_exact_value
    by (cases "evaluate_expression exact ''(3.5+2.1)*4--2''") (auto simp: returns_about_def)
qed

text \<open>C1 as stated fails: the value returned is not within \<open>10\<^sup>-\<^sup>9\<close> of 26.4.\<close>

theorem C1_sample_value_not_26_4:
  "\<not> returns_about (evaluate_expression exact ''(3.5+2.1)*4--2'') (264 / 10)"
  using sample_exact_value
  by (cases "evaluate_expression exact ''(3.5+2.1)*4--2''") (auto simp: returns_about_def)

section \<open>Division by zero\<close>

text \<open>
  C5: a division raises exactly when its right operand compares equal to zero, the error
  is \<^verbatim>\<open>ZeroDivisionError("Division by zero")\<close>, which is no \<^verbatim>\<open>ValueError\<close>, and
  \<^verbatim>\<open>evaluate_expression("10/(5-5)")\<close> fails with it.
\<close>

theorem C5_division_by_zero:
  "((\<exists>e. apply_op A a b ''/'' = Inl e) \<longleftrightarrow> fl_is_zero A b)
   \<and> (fl_is_zero A b \<longrightarrow> apply_op A a b ''/'' = Inl (ZeroDivisionError ''Division by zero''))
   \<and> (\<not> fl_is_zero A b \<longrightarrow> apply_op A a b ''/'' = Inr (fl_div A a b))
   \<and> ZeroDivisionError m \<noteq> ValueError m'
   \<and> evaluate_expression exact ''10/(5-5)'' = Inl (ZeroDivisionError ''Division by zero'')"
  by (simp add: tokenize_defs pipeline_defs exact_defs Let_def)

theorem C5_division_by_zero_witness:
  "fl_is_zero exact 0 \<and> apply_op exact 10 0 ''/'' = Inl (ZeroDivisionError ''Division by zero'')
   \<and> \<not> fl_is_zero exact 2 \<and> apply_op exact 10 2 ''/'' = Inr 5"
  using C5_division_by_zero [of exact 10 0] C5_division_by_zero [of exact 10 2]
  by (simp add: exact_def)

section \<open>Blank input\<close>

lemma tokenize_loop_spaces: "list_all isspace expr \<Longrightarrow> tokenize_loop expr tokens = Inr tokens"
  by (induction expr) auto

text \<open>
  C10: on a text that is empty or all whitespace, \<^verbatim>\<open>tokenize\<close> returns no token and
  \<^verbatim>\<open>evaluate_expression\<close> raises the \<^verbatim>\<open>ValueError\<close> of an evaluation that does not
  leave one value, in every arithmetic.
\<close>

theorem C10_blank_input:
  assumes "\<forall>c \<in> set expr. isspace c"
  shows "tokenize expr = Inr [] \<and>
    evaluate_expression A expr =
      Inl (ValueError ''The expression could not be evaluated to a single value (syntax error).'')"
proof -
  have "tokenize expr = Inr []"
    using assms by (simp add: tokenize_def tokenize_loop_spaces list_all_iff)
  then show ?thesis
    by (simp add: evaluate_expression_def infix_to_postfix_def evaluate_postfix_def
        single_value_error_def)
qed

theorem C10_blank_input_witness:
  "isspace (CHR '' '') \<and> isspace (CHR 0x09) \<and> tokenize [CHR '' '', CHR 0x09] = Inr [] \<and>
   evaluate_expression exact [CHR '' '', CHR 0x09] =
      Inl (ValueError ''The expression could not be evaluated to a single value (syntax error).'')
   \<and> evaluate_expression exact [] =
      Inl (ValueError ''The expression could not be evaluated to a single value (syntax error).'')"
  using C10_blank_input [of "[CHR '' '', CHR 0x09]" exact] C10_blank_input [of "[]" exact]
  by (simp add: isspace_def)

section \<open>The trace of the evaluator\<close>

lemma eval_loop_trace:
  "eval_loop A toks stack trace = Inr (stack', trace') \<Longrightarrow>
     length trace' = length trace + length toks
     \<and> length (filter is_push trace') = length (filter is_push trace) + length (filter (is_number A) toks)
     \<and> length toks = length (filter (is_number A) toks) + length (filter (operator_token A) toks)"
proof (induction toks arbitrary: stack trace)
  case Nil
  then show ?case by simp
next
  case (Cons tok toks)
  show ?case
  proof (cases "fl_parse A tok")
    case (Some val)
    then have "eval_loop A toks (val # stack) (trace @ [PUSH val]) = Inr (stack', trace')"
      using Cons.prems by simp
    from Cons.IH [OF this] Some show ?thesis
      by (simp add: is_number_def operator_token_def)
  next
    case None
    then have op: "tok \<in> dom OPERATORS"
      using Cons.prems by (auto split: if_splits)
    show ?thesis
    proof (cases "tok = ''u-''")
      case True
      then obtain a st where st: "stack = a # st"
        and run: "eval_loop A toks (fl_neg A a # st) (trace @ [UNARY_MINUS a (fl_neg A a)]) = Inr (stack', trace')"
        using Cons.prems None op by (auto split: list.splits)
      from Cons.IH [OF run] None op show ?thesis
        by (simp add: is_number_def operator_token_def)
    next
      case False
      then obtain b a st res where st: "stack = b # a # st"
        and run: "eval_loop A toks (res # st) (trace @ [BINARY a tok b res]) = Inr (stack', trace')"
        using Cons.prems None op by (auto split: list.splits sum.splits)
      from Cons.IH [OF run] None op show ?thesis
        by (simp add: is_number_def operator_token_def)
    qed
  qed
qed

lemma evaluate_postfix_Inr:
  "evaluate_postfix A pf = Inr (v, trace) \<longleftrightarrow> eval_loop A pf [] [] = Inr ([v], trace)"
  by (auto simp: evaluate_postfix_def split: sum.splits list.splits)

text \<open>
  C2, as the code has it: after a successful evaluation the trace has one entry for each
  token of the postfix sequence, that is one for each Number token and one for each
  operator token; the \<open>PUSH\<close> entries are as many as the Number tokens.
\<close>

theorem C2_trace_length:
  assumes "evaluate_postfix A postfix = Inr (v, trace)"
  shows "length trace = length postfix
    \<and> length trace = length (filter (is_number A) postfix) + length (filter (operator_token A) postfix)
    \<and> length (filter is_push trace) = length (filter (is_number A) postfix)"
  using eval_loop_trace [of A postfix "[]" "[]" "[v]" trace] assms
  by (simp add: evaluate_postfix_Inr)

text \<open>
  C2 as stated fails: the postfix sequence \<open>3 4 +\<close> evaluates to 7 with three trace
  entries, and it has two Number tokens.
\<close>

theorem C2_trace_length_counterexample:
  "evaluate_postfix exact [''3'', ''4'', ''+''] = Inr (7, [PUSH 3, PUSH 4, BINARY 3 ''+'' 4 7])
   \<and> length [PUSH 3, PUSH 4, BINARY 3 ''+'' 4 (7::real)]
       \<noteq> length (filter (is_number exact) [''3'', ''4'', ''+''])"
  by (simp add: pipeline_defs exact_defs)

theorem C2_trace_length_witness:
  "evaluate_postfix exact [''3'', ''4'', ''+''] = Inr (7, [PUSH 3, PUSH 4, BINARY 3 ''+'' 4 7])
   \<and> length [PUSH 3, PUSH 4, BINARY 3 ''+'' 4 (7::real)] = length [''3'', ''4'', ''+'']
   \<and> length (filter is_push [PUSH 3, PUSH 4, BINARY 3 ''+'' 4 (7::real)]) = 2
   \<and> length (filter (is_number exact) [''3'', ''4'', ''+'']) = 2"
proof -
  have run: "evaluate_postfix exact [''3'', ''4'', ''+''] = Inr (7, [PUSH 3, PUSH 4, BINARY 3 ''+'' 4 7])"
    by (simp add: pipeline_defs exact_defs)
  from C2_trace_length [OF run] run show ?thesis by simp
qed

section \<open>Errors of the evaluator\<close>

lemma eval_loop_append:
  "eval_loop A (xs @ ys) stack trace =
     (case eval_loop A xs stack trace of Inl e \<Rightarrow> Inl e | Inr (s, t) \<Rightarrow> eval_loop A ys s t)"
  by (induction xs arbitrary: stack trace)
     (auto split: option.splits list.splits sum.splits)

text \<open>
  C7: let the loop have consumed the tokens \<open>pre\<close> and hold \<open>stack\<close>. A binary operator
  token met with fewer than two values, and a unary minus met with none, raise the
  \<^verbatim>\<open>ValueError\<close> for insufficient operands; at the end of the tokens the evaluation
  raises the single-value \<^verbatim>\<open>ValueError\<close> unless the stack holds exactly one value, which
  is then returned; and \<^verbatim>\<open>evaluate_expression("3++4")\<close> raises a \<^verbatim>\<open>ValueError\<close>.
\<close>

theorem C7_operand_errors:
  assumes "eval_loop A pre [] [] = Inr (stack, trace)"
  shows "(operator_token A tok \<and> tok \<noteq> ''u-'' \<and> length stack < 2 \<longrightarrow>
            evaluate_postfix A (pre @ tok # rest)
              = Inl (ValueError (''Insufficient operands for '' @ [CHR 0x27] @ tok @ [CHR 0x27])))
    \<and> (operator_token A ''u-'' \<and> length stack < 1 \<longrightarrow>
            evaluate_postfix A (pre @ ''u-'' # rest)
              = Inl (ValueError ''Insufficient operands for unary minus''))
    \<and> (length stack \<noteq> 1 \<longrightarrow>
            evaluate_postfix A pre = Inl (ValueError
              ''The expression could not be evaluated to a single value (syntax error).''))
    \<and> (length stack = 1 \<longrightarrow> evaluate_postfix A pre = Inr (hd stack, trace))
    \<and> evaluate_expression exact ''3++4''
         = Inl (ValueError (''Insufficient operands for '' @ [CHR 0x27] @ ''+'' @ [CHR 0x27]))"
proof -
  have binary: "evaluate_postfix A (pre @ tok # rest)
      = Inl (ValueError (''Insufficient operands for '' @ [CHR 0x27] @ tok @ [CHR 0x27]))"
    if "operator_token A tok" "tok \<noteq> ''u-''" "length stack < 2"
  proof -
    from that(1) have "fl_parse A tok = None" "tok \<in> dom OPERATORS"
      by (auto simp: operator_token_def is_number_def split: if_splits)
    moreover from that(3) have "stack = [] \<or> (\<exists>x. stack = [x])"
      by (cases stack) (auto simp: length_Suc_conv)
    ultimately show ?thesis
      using assms that(2) by (auto simp: evaluate_postfix_def eval_loop_append)
  qed
  have unary: "evaluate_postfix A (pre @ ''u-'' # rest)
      = Inl (ValueError ''Insufficient operands for unary minus'')"
    if "operator_token A ''u-''" "length stack < 1"
  proof -
    from that(1) have "fl_parse A ''u-'' = None" "''u-'' \<in> dom OPERATORS"
      by (auto simp: operator_token_def is_number_def split: if_splits)
    then show ?thesis
      using assms that(2) by (simp add: evaluate_postfix_def eval_loop_append)
  qed
  have final: "evaluate_postfix A pre = Inl (ValueError
      ''The expression could not be evaluated to a single value (syntax error).'')"
    if "length stack \<noteq> 1"
    using assms that
    by (auto simp: evaluate_postfix_def single_value_error_def split: list.splits)
  have one: "evaluate_postfix A pre = Inr (hd stack, trace)" if "length stack = 1"
    using assms that by (auto simp: evaluate_postfix_def split: list.splits)
  have "evaluate_expression exact ''3++4''
      = Inl (ValueError (''Insufficient operands for '' @ [CHR 0x27] @ ''+'' @ [CHR 0x27]))"
    by (simp add: tokenize_defs pipeline_defs exact_defs Let_def)
  with binary unary final one show ?thesis by blast
qed

theorem C7_operand_errors_witness:
  "eval_loop exact [''3''] [] [] = Inr ([3], [PUSH 3])
   \<and> operator_token exact ''+''
   \<and> evaluate_postfix exact [''3'', ''+'', ''4'', ''+'']
       = Inl (ValueError (''Insufficient operands for '' @ [CHR 0x27] @ ''+'' @ [CHR 0x27]))
   \<and> evaluate_postfix exact [''3''] = Inr (3, [PUSH 3])
   \<and> eval_loop exact [] [] [] = Inr ([], [])
   \<and> operator_token exact ''u-''
   \<and> evaluate_postfix exact [''u-'', ''3'']
       = Inl (ValueError ''Insufficient operands for unary minus'')
   \<and> evaluate_postfix exact []
       = Inl (ValueError ''The expression could not be evaluated to a single value (syntax error).'')"
proof -
  have a: "eval_loop exact [''3''] [] [] = Inr ([3], [PUSH 3])"
    by (simp add: exact_defs)
  have b: "eval_loop exact [] [] [] = Inr ([], [])"
    by simp
  have c: "operator_token exact ''+''" "operator_token exact ''u-''"
    by (simp_all add: operator_token_def is_number_def OPERATORS_def exact_defs)
  from C7_operand_errors [OF a, of "''+''" "[''4'', ''+'']"]
    C7_operand_errors [OF b, of "''+''" "[''3'']"] a b c
  show ?thesis by simp
qed

section \<open>Parentheses in the converter\<close>

lemma convert_loop_append:
  "convert_loop A (xs @ ys) os =
     (case convert_loop A xs os of Inl e \<Rightarrow> Inl e | Inr os' \<Rightarrow> convert_loop A ys os')"
  by (induction xs arbitrary: os) (auto split: sum.splits)

lemma pop_to_paren_unmatched:
  "''('' \<notin> set stack \<Longrightarrow> pop_to_paren stack out = ([], out @ stack)"
  by (induction stack arbitrary: out) auto

lemma pop_to_paren_matched:
  "''('' \<notin> set ops \<Longrightarrow> pop_to_paren (ops @ ''('' # rest) out = (''('' # rest, out @ ops)"
  by (induction ops arbitrary: out) auto

lemma drain_paren:
  "''('' \<in> set stack \<or> '')'' \<in> set stack \<Longrightarrow>
     drain stack out = Inl (ValueError ''Mismatched parentheses'')"
  by (induction stack arbitrary: out) auto

lemma drain_no_paren:
  "''('' \<notin> set stack \<Longrightarrow> '')'' \<notin> set stack \<Longrightarrow> drain stack out = Inr (out @ stack)"
  by (induction stack arbitrary: out) auto

lemma convert_rparen_unmatched:
  assumes "\<not> is_number A '')''" "''('' \<notin> set stack"
  shows "convert_token A '')'' (output, stack) = Inl (ValueError ''Mismatched parentheses'')"
  using assms by (simp add: convert_token_def OPERATORS_def pop_to_paren_unmatched)

lemma convert_rparen_matched:
  assumes "\<not> is_number A '')''" "''('' \<notin> set ops"
  shows "convert_token A '')'' (output, ops @ ''('' # rest) = Inr (output @ ops, rest)"
  using assms by (simp add: convert_token_def OPERATORS_def pop_to_paren_matched)

text \<open>
  C6: let the converter have consumed the tokens \<open>pre\<close> and hold \<open>stack\<close>. A \<^verbatim>\<open>')'\<close>
  that finds no \<^verbatim>\<open>'('\<close> on the stack raises \<^verbatim>\<open>ValueError("Mismatched parentheses")\<close>,
  and so does the end of the input when a parenthesis is left on the stack;
  \<^verbatim>\<open>evaluate_expression("(3+4")\<close> and \<^verbatim>\<open>evaluate_expression("3+4)")\<close> both raise it.
\<close>

theorem C6_mismatched_parentheses:
  assumes "convert_loop A pre ([], []) = Inr (output, stack)"
  shows "(\<not> is_number A '')'' \<and> ''('' \<notin> set stack \<longrightarrow>
            infix_to_postfix A (pre @ '')'' # rest) = Inl (ValueError ''Mismatched parentheses''))
    \<and> (''('' \<in> set stack \<or> '')'' \<in> set stack \<longrightarrow>
            infix_to_postfix A pre = Inl (ValueError ''Mismatched parentheses''))
    \<and> evaluate_expression exact ''(3+4'' = Inl (ValueError ''Mismatched parentheses'')
    \<and> evaluate_expression exact ''3+4)'' = Inl (ValueError ''Mismatched parentheses'')"
proof -
  have close: "infix_to_postfix A (pre @ '')'' # rest) = Inl (ValueError ''Mismatched parentheses'')"
    if "\<not> is_number A '')''" "''('' \<notin> set stack"
    using assms that
    by (simp add: infix_to_postfix_def convert_loop_append convert_rparen_unmatched)
  have finish: "infix_to_postfix A pre = Inl (ValueError ''Mismatched parentheses'')"
    if "''('' \<in> set stack \<or> '')'' \<in> set stack"
    using assms that by (simp add: infix_to_postfix_def drain_paren)
  have "evaluate_expression exact ''(3+4'' = Inl (ValueError ''Mismatched parentheses'')"
    by (simp add: tokenize_defs pipeline_defs exact_defs Let_def)
  moreover have "evaluate_expression exact ''3+4)'' = Inl (ValueError ''Mismatched parentheses'')"
    by (simp add: tokenize_defs pipeline_defs exact_defs Let_def)
  ultimately show ?thesis
    using close finish by blast
qed

theorem C6_mismatched_parentheses_witness:
  "convert_loop exact [''3'', ''+'', ''4''] ([], []) = Inr ([''3'', ''4''], [''+''])
   \<and> \<not> is_number exact '')''
   \<and> infix_to_postfix exact [''3'', ''+'', ''4'', '')''] = Inl (ValueError ''Mismatched parentheses'')
   \<and> convert_loop exact [''('', ''3'', ''+'', ''4''] ([], []) = Inr ([''3'', ''4''], [''+'', ''(''])
   \<and> infix_to_postfix exact [''('', ''3'', ''+'', ''4''] = Inl (ValueError ''Mismatched parentheses'')"
proof -
  have a: "convert_loop exact [''3'', ''+'', ''4''] ([], []) = Inr ([''3'', ''4''], [''+''])"
    by (simp add: convert_token_def is_number_def OPERATORS_def exact_defs)
  have b: "convert_loop exact [''('', ''3'', ''+'', ''4''] ([], []) = Inr ([''3'', ''4''], [''+'', ''(''])"
    by (simp add: convert_token_def is_number_def OPERATORS_def exact_defs)
  have c: "\<not> is_number exact '')''"
    by (simp add: is_number_def exact_defs)
  from C6_mismatched_parentheses [OF a, of "[]"] C6_mismatched_parentheses [OF b] a b c
  show ?thesis by simp
qed

section \<open>Precedence and associativity\<close>

lemma OPERATORS_spec:
  "OPERATORS k =
     (if spec_operator k
      then Some \<lparr>prec = spec_precedence k, assoc = (if spec_left_assoc k then ''L'' else ''R'')\<rparr>
      else None)"
  by (simp add: OPERATORS_def spec_operator_def spec_precedence_def spec_left_assoc_def)

lemma spec_right_assoc_iff: "spec_operator k \<Longrightarrow> spec_right_assoc k \<longleftrightarrow> \<not> spec_left_assoc k"
  by (auto simp: spec_operator_def spec_right_assoc_def spec_left_assoc_def)

lemma pop_operators_spec:
  assumes "OPERATORS o1 = Some i1"
  shows "pop_operators i1 stack out =
     (dropWhile (spec_pops o1) stack, out @ takeWhile (spec_pops o1) stack)"
proof -
  from assms have o1: "spec_operator o1" "prec i1 = spec_precedence o1"
    "assoc i1 = ''L'' \<longleftrightarrow> spec_left_assoc o1" "assoc i1 = ''R'' \<longleftrightarrow> spec_right_assoc o1"
    by (auto simp: OPERATORS_spec spec_right_assoc_iff split: if_splits)
  show "pop_operators i1 stack out =
     (dropWhile (spec_pops o1) stack, out @ takeWhile (spec_pops o1) stack)" for out
  proof (induction stack arbitrary: out)
    case Nil
    then show ?case by simp
  next
    case (Cons o2 stack)
    show ?case
    proof (cases "spec_operator o2")
      case True
      then show ?thesis
        using o1 Cons.IH by (simp add: OPERATORS_spec spec_pops_def)
    next
      case False
      then show ?thesis
        by (simp add: OPERATORS_spec spec_pops_def)
    qed
  qed
qed

text \<open>
  C3: on an operator token \<open>o1\<close> the converter moves to the output the longest run of
  stack entries \<open>o2\<close>, from the top, that are operators with \<open>o1\<close> left-associative and
  \<open>precedence o1 \<le> precedence o2\<close>, or \<open>o1\<close> right-associative and
  \<open>precedence o1 < precedence o2\<close>, and then pushes \<open>o1\<close>. So \<^verbatim>\<open>2^3^2\<close> evaluates to
  512 and \<^verbatim>\<open>8-3-2\<close> to 3.
\<close>

theorem C3_operator_popping:
  assumes "spec_operator o1" "\<not> is_number A o1"
  shows "convert_token A o1 (output, stack)
      = Inr (output @ takeWhile (spec_pops o1) stack, o1 # dropWhile (spec_pops o1) stack)
    \<and> evaluate_expression exact ''2^3^2'' =
        Inr (512, [''2'', ''^'', ''3'', ''^'', ''2''], [''2'', ''3'', ''2'', ''^'', ''^''],
             [PUSH 2, PUSH 3, PUSH 2, BINARY 3 ''^'' 2 9, BINARY 2 ''^'' 9 512])
    \<and> evaluate_expression exact ''8-3-2'' =
        Inr (3, [''8'', ''-'', ''3'', ''-'', ''2''], [''8'', ''3'', ''-'', ''2'', ''-''],
             [PUSH 8, PUSH 3, BINARY 8 ''-'' 3 5, PUSH 2, BINARY 5 ''-'' 2 3])"
proof -
  from assms(1) obtain i1 where "OPERATORS o1 = Some i1"
    by (simp add: OPERATORS_spec)
  then have "convert_token A o1 (output, stack)
      = Inr (output @ takeWhile (spec_pops o1) stack, o1 # dropWhile (spec_pops o1) stack)"
    using assms(2) by (simp add: convert_token_def pop_operators_spec)
  moreover have "evaluate_expression exact ''2^3^2'' =
        Inr (512, [''2'', ''^'', ''3'', ''^'', ''2''], [''2'', ''3'', ''2'', ''^'', ''^''],
             [PUSH 2, PUSH 3, PUSH 2, BINARY 3 ''^'' 2 9, BINARY 2 ''^'' 9 512])"
    by (simp add: tokenize_defs pipeline_defs exact_defs Let_def)
  moreover have "evaluate_expression exact ''8-3-2'' =
        Inr (3, [''8'', ''-'', ''3'', ''-'', ''2''], [''8'', ''3'', ''-'', ''2'', ''-''],
             [PUSH 8, PUSH 3, BINARY 8 ''-'' 3 5, PUSH 2, BINARY 5 ''-'' 2 3])"
    by (simp add: tokenize_defs pipeline_defs exact_defs Let_def)
  ultimately show ?thesis by simp
qed

theorem C3_operator_popping_witness:
  "spec_operator ''+'' \<and> \<not> is_number exact ''+''
   \<and> convert_token exact ''+'' ([''1'', ''2'', ''3''], [''*'', ''-'', ''('', ''+''])
       = Inr ([''1'', ''2'', ''3'', ''*'', ''-''], [''+'', ''('', ''+''])
   \<and> spec_operator ''^'' \<and> \<not> is_number exact ''^''
   \<and> convert_token exact ''^'' ([''2'', ''3''], [''^'']) = Inr ([''2'', ''3''], [''^'', ''^''])"
proof -
  have a: "spec_operator ''+''" "spec_operator ''^''"
    by (simp_all add: spec_operator_def)
  have b: "\<not> is_number exact ''+''" "\<not> is_number exact ''^''"
    by (simp_all add: is_number_def exact_defs)
  from C3_operator_popping [OF a(1) b(1), of "[''1'', ''2'', ''3'']" "[''*'', ''-'', ''('', ''+'']"]
    C3_operator_popping [OF a(2) b(2), of "[''2'', ''3'']" "[''^'']"] a b
  show ?thesis
    by (simp add: spec_pops_def spec_operator_def spec_left_assoc_def spec_right_assoc_def
        spec_precedence_def)
qed

section \<open>Unary minus in the tokenizer\<close>

lemma minus_char_class [simp]:
  "\<not> isspace (CHR ''-'')" "\<not> isdigit (CHR ''-'')" "\<not> num_char (CHR ''-'')"
  by (simp_all add: isspace_def isdigit_def num_char_def)

lemma unary_context_iff: "unary_context tokens \<longleftrightarrow> unary_after (last_token tokens)"
  by (auto simp: unary_context_def unary_after_def last_token_def)

lemma tokenize_loop_minus:
  "tokenize_loop (CHR ''-'' # rest) tokens =
     tokenize_loop rest (tokens @ [if unary_after (last_token tokens) then ''u-'' else ''-''])"
  by (simp add: unary_context_iff)

lemma minus_placed_snoc:
  "minus_placed prev (ts @ [t]) \<longleftrightarrow>
     minus_placed prev ts \<and>
     (if t = ''u-'' then unary_after (if ts = [] then prev else Some (last ts))
      else if t = ''-'' then \<not> unary_after (if ts = [] then prev else Some (last ts))
      else True)"
  by (induction ts arbitrary: prev) auto

lemma minus_placed_append_one:
  "minus_placed None (tokens @ [t]) \<longleftrightarrow>
     minus_placed None tokens \<and>
     (if t = ''u-'' then unary_after (last_token tokens)
      else if t = ''-'' then \<not> unary_after (last_token tokens)
      else True)"
  by (simp add: minus_placed_snoc last_token_def)

lemma tokenize_loop_minus_placed:
  "tokenize_loop expr tokens = Inr toks \<Longrightarrow> minus_placed None tokens \<Longrightarrow> minus_placed None toks"
proof (induction expr tokens rule: tokenize_loop.induct)
  case (1 tokens)
  then show ?case by simp
next
  case (2 ch rest tokens)
  show ?case
  proof (cases "isspace ch")
    case True
    with 2 show ?thesis by simp
  next
    case space: False
    show ?thesis
    proof (cases "isdigit ch \<or> ch = CHR ''.''")
      case True
      define num_str where "num_str = ch # takeWhile num_char rest"
      from True have "ch \<noteq> CHR ''-''" "ch \<noteq> CHR ''u''"
        by (auto simp: isdigit_def)
      then have neq: "num_str \<noteq> ''u-''" "num_str \<noteq> ''-''"
        by (auto simp: num_str_def)
      from "2.prems"(1) space True
      have few: "\<not> 1 < count_list num_str (CHR ''.'')"
        and run: "tokenize_loop (dropWhile num_char rest) (tokens @ [num_str]) = Inr toks"
        by (auto simp: num_str_def Let_def split: if_splits)
      have "minus_placed None (tokens @ [num_str])"
        using "2.prems"(2) neq by (simp add: minus_placed_append_one)
      with "2.IH"(2) [OF space True num_str_def few run] show ?thesis .
    next
      case num: False
      show ?thesis
      proof (cases "ch \<in> set ''+-*/^()''")
        case False
        with "2.prems"(1) space num show ?thesis by simp
      next
        case True
        show ?thesis
        proof (cases "ch = CHR ''-'' \<and> unary_context tokens")
          case unary: True
          with "2.prems"(1) space num True
          have run: "tokenize_loop rest (tokens @ [''u-'']) = Inr toks"
            by simp
          have "minus_placed None (tokens @ [''u-''])"
            using "2.prems"(2) unary by (simp add: minus_placed_append_one unary_context_iff)
          with "2.IH"(3) [OF space num True unary run] show ?thesis .
        next
          case binary: False
          with "2.prems"(1) space num True
          have run: "tokenize_loop rest (tokens @ [[ch]]) = Inr toks"
            by (simp split: if_splits)
          have "minus_placed None (tokens @ [[ch]])"
            using "2.prems"(2) binary by (simp add: minus_placed_append_one unary_context_iff)
          with "2.IH"(4) [OF space num True binary run] show ?thesis .
        qed
      qed
    qed
  qed
qed

text \<open>
  C4: a \<^verbatim>\<open>-\<close> character is emitted as the token \<^verbatim>\<open>u-\<close> when no token precedes it or the
  last token is an operator, a \<^verbatim>\<open>u-\<close> or a left parenthesis, and as the token \<^verbatim>\<open>-\<close>
  otherwise; so in every token sequence that \<^verbatim>\<open>tokenize\<close> returns each \<^verbatim>\<open>u-\<close> stands
  in such a place and each \<^verbatim>\<open>-\<close> does not. The three sample texts tokenize as the
  specification lists them.
\<close>

theorem C4_unary_minus:
  "tokenize_loop (CHR ''-'' # rest) tokens =
     tokenize_loop rest (tokens @ [if unary_after (last_token tokens) then ''u-'' else ''-''])
   \<and> (tokenize expr = Inr toks \<longrightarrow> minus_placed None toks)
   \<and> tokenize ''-3+4'' = Inr [''u-'', ''3'', ''+'', ''4'']
   \<and> tokenize ''3--4'' = Inr [''3'', ''-'', ''u-'', ''4'']
   \<and> tokenize ''(-3)'' = Inr [''('', ''u-'', ''3'', '')'']"
proof -
  have "tokenize expr = Inr toks \<longrightarrow> minus_placed None toks"
    using tokenize_loop_minus_placed [of expr "[]" toks] by (simp add: tokenize_def)
  moreover have "tokenize ''-3+4'' = Inr [''u-'', ''3'', ''+'', ''4'']"
    by (simp add: tokenize_defs)
  moreover have "tokenize ''3--4'' = Inr [''3'', ''-'', ''u-'', ''4'']"
    by (simp add: tokenize_defs)
  moreover have "tokenize ''(-3)'' = Inr [''('', ''u-'', ''3'', '')'']"
    by (simp add: tokenize_defs)
  ultimately show ?thesis
    using tokenize_loop_minus by blast
qed

theorem C4_unary_minus_witness:
  "tokenize_loop ''-4'' [''3'', ''-''] = Inr [''3'', ''-'', ''u-'', ''4'']
   \<and> tokenize_loop ''-4'' [''3''] = Inr [''3'', ''-'', ''4'']
   \<and> tokenize ''2*-(1--5)-3'' = Inr [''2'', ''*'', ''u-'', ''('', ''1'', ''-'', ''u-'', ''5'', '')'', ''-'', ''3'']
   \<and> minus_placed None [''2'', ''*'', ''u-'', ''('', ''1'', ''-'', ''u-'', ''5'', '')'', ''-'', ''3'']
   \<and> \<not> minus_placed None [''3'', ''u-'', ''4'']
   \<and> \<not> minus_placed None [''-'', ''4'']"
proof -
  have t: "tokenize ''2*-(1--5)-3'' = Inr [''2'', ''*'', ''u-'', ''('', ''1'', ''-'', ''u-'', ''5'', '')'', ''-'', ''3'']"
    by (simp add: tokenize_defs)
  have a: "tokenize_loop ''4'' [''3'', ''-'', ''u-''] = Inr [''3'', ''-'', ''u-'', ''4'']"
    "tokenize_loop ''4'' [''3'', ''-''] = Inr [''3'', ''-'', ''4'']"
    by (simp_all add: tokenize_defs)
  from C4_unary_minus [of "''4''" "[''3'', ''-'']" "''2*-(1--5)-3''"
      "[''2'', ''*'', ''u-'', ''('', ''1'', ''-'', ''u-'', ''5'', '')'', ''-'', ''3'']"]
    C4_unary_minus [of "''4''" "[''3'']"] t a
  show ?thesis
    by (simp add: unary_after_def last_token_def)
qed

section \<open>Numeric literals in the tokenizer\<close>

lemma isspace_not_num_char: "isspace ch \<Longrightarrow> \<not> num_char ch"
  by (auto simp: isspace_def isdigit_def num_char_def)

lemma structural_not_num_char: "ch \<in> set ''+-*/^()'' \<Longrightarrow> \<not> num_char ch"
  by (auto simp: isdigit_def num_char_def)

lemma not_candidate_unary [simp]: "\<not> number_candidate ''u-''"
  by (simp add: number_candidate_def num_char_def isdigit_def)

lemma runs_from_split:
  "runs_from run cs =
     (if run @ takeWhile num_char cs = [] then [] else [run @ takeWhile num_char cs])
       @ runs_from [] (dropWhile num_char cs)"
  by (induction cs arbitrary: run) auto

lemma maximal_runs_skip: "\<not> num_char ch \<Longrightarrow> maximal_runs (ch # rest) = maximal_runs rest"
  by (simp add: maximal_runs_def)

lemma maximal_runs_run:
  "num_char ch \<Longrightarrow>
     maximal_runs (ch # rest)
       = (ch # takeWhile num_char rest) # maximal_runs (dropWhile num_char rest)"
  using runs_from_split [of "[ch]" rest] by (simp add: maximal_runs_def)

lemma tokenize_loop_runs:
  "tokenize_loop expr tokens = Inr toks \<Longrightarrow>
     filter number_candidate toks = filter number_candidate tokens @ maximal_runs expr
     \<and> (\<forall>r \<in> set (maximal_runs expr). count_list r (CHR ''.'') \<le> 1)"
proof (induction expr tokens rule: tokenize_loop.induct)
  case (1 tokens)
  then show ?case by (simp add: maximal_runs_def)
next
  case (2 ch rest tokens)
  show ?case
  proof (cases "isspace ch")
    case True
    with 2 show ?thesis
      by (simp add: maximal_runs_skip isspace_not_num_char)
  next
    case space: False
    show ?thesis
    proof (cases "isdigit ch \<or> ch = CHR ''.''")
      case True
      define num_str where "num_str = ch # takeWhile num_char rest"
      from True have nc: "num_char ch"
        by (simp add: num_char_def)
      have cand: "number_candidate num_str"
        using nc by (simp add: number_candidate_def num_str_def list_all_iff) (meson set_takeWhileD)
      from "2.prems" space True
      have few: "\<not> 1 < count_list num_str (CHR ''.'')"
        and run: "tokenize_loop (dropWhile num_char rest) (tokens @ [num_str]) = Inr toks"
        by (auto simp: num_str_def Let_def split: if_splits)
      from "2.IH"(2) [OF space True num_str_def few run] cand few
      show ?thesis
        by (simp add: maximal_runs_run [OF nc] num_str_def)
    next
      case num: False
      then have nc: "\<not> num_char ch"
        by (simp add: num_char_def)
      show ?thesis
      proof (cases "ch \<in> set ''+-*/^()''")
        case False
        with "2.prems" space num show ?thesis by simp
      next
        case True
        have single: "\<not> number_candidate [ch]"
          using nc by (simp add: number_candidate_def)
        show ?thesis
        proof (cases "ch = CHR ''-'' \<and> unary_context tokens")
          case unary: True
          with "2.prems" space num True
          have run: "tokenize_loop rest (tokens @ [''u-'']) = Inr toks"
            by simp
          from "2.IH"(3) [OF space num True unary run] show ?thesis
            by (simp add: maximal_runs_skip [OF nc])
        next
          case binary: False
          with "2.prems" space num True
          have run: "tokenize_loop rest (tokens @ [[ch]]) = Inr toks"
            by (simp split: if_splits)
          from "2.IH"(4) [OF space num True binary run] single show ?thesis
            by (simp add: maximal_runs_skip [OF nc])
        qed
      qed
    qed
  qed
qed

lemma tokenize_loop_error:
  "tokenize_loop expr tokens = Inl e \<Longrightarrow> \<exists>msg. e = ValueError msg"
  by (induction expr tokens rule: tokenize_loop.induct) (auto simp: Let_def split: if_splits)

lemma tokenize_loop_run:
  assumes "run \<noteq> []" "list_all num_char run" "rest = [] \<or> \<not> num_char (hd rest)"
  shows "tokenize_loop (run @ rest) tokens =
    (if 2 \<le> count_list run (CHR ''.'')
     then Inl (ValueError (''Invalid numeric literal: '' @ run))
     else tokenize_loop rest (tokens @ [run]))"
proof -
  from assms(1) obtain c cs where run: "run = c # cs"
    by (cases run) auto
  with assms(2) have c: "num_char c" and cs: "\<forall>x \<in> set cs. num_char x"
    by (simp_all add: list_all_iff)
  from assms(3) have stop: "takeWhile num_char rest = []" "dropWhile num_char rest = rest"
    by (cases rest; simp)+
  from cs stop have tk: "takeWhile num_char (cs @ rest) = cs"
    and dr: "dropWhile num_char (cs @ rest) = rest"
    by (simp_all add: takeWhile_append2 dropWhile_append2)
  from c have "\<not> isspace c"
    using isspace_not_num_char by blast
  moreover from c have "isdigit c \<or> c = CHR ''.''"
    by (simp add: num_char_def)
  ultimately show ?thesis
    by (simp add: run tk dr Let_def)
qed

text \<open>
  C8: the Number-candidate tokens that \<^verbatim>\<open>tokenize\<close> returns are exactly the maximal runs
  of digits and dots of the text, in order, and each has at most one dot; a text with a
  run of two dots or more makes \<^verbatim>\<open>tokenize\<close> raise a \<^verbatim>\<open>ValueError\<close>; at a maximal run
  the loop raises \<^verbatim>\<open>ValueError("Invalid numeric literal: ...")\<close> for two dots or more and
  emits the run as one token otherwise; and the runs \<^verbatim>\<open>.\<close>, \<^verbatim>\<open>3.\<close> and \<^verbatim>\<open>.5\<close> are
  emitted as tokens.
\<close>

theorem C8_number_runs:
  "(tokenize expr = Inr toks \<longrightarrow>
      filter number_candidate toks = maximal_runs expr
      \<and> (\<forall>r \<in> set (maximal_runs expr). count_list r (CHR ''.'') \<le> 1))
   \<and> ((\<exists>r \<in> set (maximal_runs expr). 2 \<le> count_list r (CHR ''.'')) \<longrightarrow>
        (\<exists>msg. tokenize expr = Inl (ValueError msg)))
   \<and> (run \<noteq> [] \<and> list_all num_char run \<and> (rest = [] \<or> \<not> num_char (hd rest)) \<longrightarrow>
        tokenize_loop (run @ rest) tokens =
          (if 2 \<le> count_list run (CHR ''.'')
           then Inl (ValueError (''Invalid numeric literal: '' @ run))
           else tokenize_loop rest (tokens @ [run])))
   \<and> tokenize ''.'' = Inr [''.'']
   \<and> tokenize ''3.'' = Inr [''3.'']
   \<and> tokenize ''.5'' = Inr [''.5'']"
proof -
  have ok: "filter number_candidate toks = maximal_runs expr
      \<and> (\<forall>r \<in> set (maximal_runs expr). count_list r (CHR ''.'') \<le> 1)"
    if "tokenize expr = Inr toks"
    using tokenize_loop_runs [of expr "[]" toks] that by (simp add: tokenize_def)
  have bad: "\<exists>msg. tokenize expr = Inl (ValueError msg)"
    if dots: "\<exists>r \<in> set (maximal_runs expr). 2 \<le> count_list r (CHR ''.'')"
  proof (cases "tokenize expr")
    case (Inl e)
    then show ?thesis
      using tokenize_loop_error [of expr "[]" e] by (auto simp: tokenize_def)
  next
    case (Inr ts)
    with tokenize_loop_runs [of expr "[]" ts] dots show ?thesis
      by (fastforce simp: tokenize_def)
  qed
  have step: "tokenize_loop (run @ rest) tokens =
          (if 2 \<le> count_list run (CHR ''.'')
           then Inl (ValueError (''Invalid numeric literal: '' @ run))
           else tokenize_loop rest (tokens @ [run]))"
    if "run \<noteq> [] \<and> list_all num_char run \<and> (rest = [] \<or> \<not> num_char (hd rest))"
    using that tokenize_loop_run by blast
  have "tokenize ''.'' = Inr [''.'']" "tokenize ''3.'' = Inr [''3.'']" "tokenize ''.5'' = Inr [''.5'']"
    by (simp_all add: tokenize_defs)
  with ok bad step show ?thesis
    by blast
qed

theorem C8_number_runs_witness:
  "tokenize ''12.5+.5*3.'' = Inr [''12.5'', ''+'', ''.5'', ''*'', ''3.'']
   \<and> filter number_candidate [''12.5'', ''+'', ''.5'', ''*'', ''3.''] = [''12.5'', ''.5'', ''3.'']
   \<and> maximal_runs ''12.5+.5*3.'' = [''12.5'', ''.5'', ''3.'']
   \<and> maximal_runs ''1+2.3.4'' = [''1'', ''2.3.4'']
   \<and> tokenize ''1+2.3.4'' = Inl (ValueError ''Invalid numeric literal: 2.3.4'')
   \<and> tokenize_loop ''2.3.4)'' [''1'', ''+''] = Inl (ValueError ''Invalid numeric literal: 2.3.4'')
   \<and> tokenize_loop ''2.5)'' [''1'', ''+''] = Inr [''1'', ''+'', ''2.5'', '')'']"
proof -
  have t: "tokenize ''12.5+.5*3.'' = Inr [''12.5'', ''+'', ''.5'', ''*'', ''3.'']"
    "tokenize ''1+2.3.4'' = Inl (ValueError ''Invalid numeric literal: 2.3.4'')"
    by (simp_all add: tokenize_defs Let_def)
  have r: "maximal_runs ''1+2.3.4'' = [''1'', ''2.3.4'']"
    by (simp add: maximal_runs_def num_char_def isdigit_def)
  have n: "list_all num_char ''2.3.4''" "list_all num_char ''2.5''" "\<not> num_char (CHR '')'')"
    by (simp_all add: num_char_def isdigit_def)
  have c: "tokenize_loop '')'' [''1'', ''+'', ''2.5''] = Inr [''1'', ''+'', ''2.5'', '')'']"
    by (simp add: tokenize_defs)
  from C8_number_runs [of "''12.5+.5*3.''" "[''12.5'', ''+'', ''.5'', ''*'', ''3.'']"
      "''2.3.4''" "'')''" "[''1'', ''+'']"]
    C8_number_runs [of "''1+2.3.4''" "[]" "''2.5''" "'')''" "[''1'', ''+'']"] t r n c
  show ?thesis
    by (simp add: number_candidate_def num_char_def isdigit_def)
qed

section \<open>Two runs on one text\<close>

text \<open>No statement of the pipeline assigns to the table, so every stage leaves the state.\<close>

lemma pop_operators_st_globals: "snd (pop_operators_st i1 stack out g) = g"
  by (induction stack arbitrary: out) (auto split: option.splits)

lemma convert_token_st_globals: "snd (convert_token_st A tok os g) = g"
proof (cases os)
  case (Pair out stack)
  show ?thesis
  proof (cases "gOPERATORS g tok")
    case None
    with Pair show ?thesis
      by (simp add: convert_token_st_def split: prod.splits list.splits)
  next
    case (Some i1)
    obtain stack' out' g' where pop: "pop_operators_st i1 stack out g = ((stack', out'), g')"
      by (metis prod.exhaust)
    with pop_operators_st_globals [of i1 stack out g] have "g' = g"
      by simp
    with Pair Some pop show ?thesis
      by (simp add: convert_token_st_def)
  qed
qed

lemma convert_loop_st_globals: "snd (convert_loop_st A tokens os g) = g"
proof (induction tokens arbitrary: os)
  case Nil
  then show ?case by simp
next
  case (Cons tok tokens)
  obtain r g' where step: "convert_token_st A tok os g = (r, g')"
    by (cases "convert_token_st A tok os g")
  with convert_token_st_globals [of A tok os g] have "g' = g"
    by simp
  with step Cons.IH show ?case
    by (cases r) simp_all
qed

lemma infix_to_postfix_st_globals: "snd (infix_to_postfix_st A tokens g) = g"
  using convert_loop_st_globals [of A tokens "([], [])" g]
  by (auto simp: infix_to_postfix_st_def split: prod.splits sum.splits)

lemma eval_loop_st_globals: "snd (eval_loop_st A toks stack trace g) = g"
  by (induction toks arbitrary: stack trace)
     (auto split: option.splits list.splits sum.splits)

lemma evaluate_postfix_st_globals: "snd (evaluate_postfix_st A postfix g) = g"
  using eval_loop_st_globals [of A postfix "[]" "[]" g]
  by (auto simp: evaluate_postfix_st_def split: prod.splits sum.splits list.splits)

lemma evaluate_expression_st_globals: "snd (evaluate_expression_st A expr g) = g"
proof (cases "tokenize expr")
  case (Inl e)
  then show ?thesis by (simp add: evaluate_expression_st_def)
next
  case (Inr tokens)
  obtain r1 g1 where c: "infix_to_postfix_st A tokens g = (r1, g1)"
    by (cases "infix_to_postfix_st A tokens g")
  with infix_to_postfix_st_globals [of A tokens g] have g1: "g1 = g"
    by simp
  show ?thesis
  proof (cases r1)
    case (Inl e)
    with Inr c g1 show ?thesis by (simp add: evaluate_expression_st_def)
  next
    case postfix: (Inr postfix)
    obtain r2 g2 where e: "evaluate_postfix_st A postfix g = (r2, g2)"
      by (cases "evaluate_postfix_st A postfix g")
    with evaluate_postfix_st_globals [of A postfix g] have "g2 = g"
      by simp
    with Inr c g1 postfix e show ?thesis
      by (cases r2) (auto simp: evaluate_expression_st_def)
  qed
qed

text \<open>With the table as the module binds it, the stages are the functions above.\<close>

lemma pop_operators_st_initial:
  "gOPERATORS g = OPERATORS \<Longrightarrow> pop_operators_st i1 stack out g = (pop_operators i1 stack out, g)"
  by (induction stack arbitrary: out) (auto split: option.splits)

lemma convert_token_st_initial:
  "gOPERATORS g = OPERATORS \<Longrightarrow> convert_token_st A tok os g = (convert_token A tok os, g)"
  by (cases os)
     (auto simp: convert_token_st_def convert_token_def pop_operators_st_initial
       split: option.splits prod.splits list.splits)

lemma convert_loop_st_initial:
  "gOPERATORS g = OPERATORS \<Longrightarrow> convert_loop_st A tokens os g = (convert_loop A tokens os, g)"
  by (induction tokens arbitrary: os) (auto simp: convert_token_st_initial split: sum.splits)

lemma infix_to_postfix_st_initial:
  "gOPERATORS g = OPERATORS \<Longrightarrow> infix_to_postfix_st A tokens g = (infix_to_postfix A tokens, g)"
  by (auto simp: infix_to_postfix_st_def infix_to_postfix_def convert_loop_st_initial
      split: sum.splits)

lemma eval_loop_st_initial:
  "gOPERATORS g = OPERATORS \<Longrightarrow>
     eval_loop_st A toks stack trace g = (eval_loop A toks stack trace, g)"
  by (induction toks arbitrary: stack trace)
     (auto split: option.splits list.splits sum.splits)

lemma evaluate_postfix_st_initial:
  "gOPERATORS g = OPERATORS \<Longrightarrow> evaluate_postfix_st A postfix g = (evaluate_postfix A postfix, g)"
  by (auto simp: evaluate_postfix_st_def evaluate_postfix_def eval_loop_st_initial
      split: sum.splits list.splits)

lemma evaluate_expression_st_initial:
  "gOPERATORS g = OPERATORS \<Longrightarrow>
     evaluate_expression_st A expr g = (evaluate_expression A expr, g)"
  by (auto simp: evaluate_expression_st_def evaluate_expression_def
      infix_to_postfix_st_initial evaluate_postfix_st_initial split: sum.splits)

text \<open>
  C9: run \<^verbatim>\<open>evaluate_expression\<close> on a text from any state of the module, and run it
  again on the same text from the state the first run leaves. The second run returns the
  result of the first, the same value, tokens, postfix sequence and trace or the same
  error, and both runs leave the state as they found it. From a state whose table is the
  one of the source, the result is that of the functions above. The results are equal as
  data: the same floats, where Python's \<^verbatim>\<open>==\<close> would tell a NaN from itself.
\<close>

theorem C9_two_runs:
  assumes "evaluate_expression_st A expr g = (r1, g1)"
    and "evaluate_expression_st A expr g1 = (r2, g2)"
  shows "r2 = r1 \<and> g1 = g \<and> g2 = g
    \<and> (gOPERATORS g = OPERATORS \<longrightarrow> r1 = evaluate_expression A expr)"
proof -
  from assms(1) evaluate_expression_st_globals [of A expr g] have g1: "g1 = g"
    by simp
  with assms have "r2 = r1" "g2 = g"
    by simp_all
  moreover have "r1 = evaluate_expression A expr" if "gOPERATORS g = OPERATORS"
    using evaluate_expression_st_initial [OF that, of A expr] assms(1) by simp
  ultimately show ?thesis
    using g1 by blast
qed

lemma sample_left_assoc_st:
  "evaluate_expression_st exact ''8-3-2'' initial_globals =
     (Inr (3, [''8'', ''-'', ''3'', ''-'', ''2''], [''8'', ''3'', ''-'', ''2'', ''-''],
           [PUSH 8, PUSH 3, BINARY 8 ''-'' 3 5, PUSH 2, BINARY 5 ''-'' 2 3]),
      initial_globals)"
  by (simp add: evaluate_expression_st_def infix_to_postfix_st_def convert_token_st_def
      evaluate_postfix_st_def initial_globals_def tokenize_defs is_number_def OPERATORS_def
      apply_op_def exact_defs Let_def)

theorem C9_two_runs_witness:
  "evaluate_expression_st exact ''8-3-2'' initial_globals =
     (Inr (3, [''8'', ''-'', ''3'', ''-'', ''2''], [''8'', ''3'', ''-'', ''2'', ''-''],
           [PUSH 8, PUSH 3, BINARY 8 ''-'' 3 5, PUSH 2, BINARY 5 ''-'' 2 3]),
      initial_globals)
   \<and> gOPERATORS initial_globals = OPERATORS
   \<and> evaluate_expression exact ''8-3-2'' =
       Inr (3, [''8'', ''-'', ''3'', ''-'', ''2''], [''8'', ''3'', ''-'', ''2'', ''-''],
            [PUSH 8, PUSH 3, BINARY 8 ''-'' 3 5, PUSH 2, BINARY 5 ''-'' 2 3])"
  using C9_two_runs [OF sample_left_assoc_st sample_left_assoc_st] sample_left_assoc_st
  by (simp add: initial_globals_def)

text \<open>
  The result does depend on the table, so a stage that wrote it would change the next
  run: with an empty table the same text is refused.
\<close>

lemma table_matters:
  "fst (evaluate_expression_st exact ''8-3-2'' \<lparr>gOPERATORS = Map.empty\<rparr>)
     = Inl (ValueError ''Unknown token in infix_to_postfix: -'')"
  by (simp add: evaluate_expression_st_def infix_to_postfix_st_def convert_token_st_def
      tokenize_defs is_number_def exact_defs Let_def)

end
